theory Spec2Isabelle
  imports Main "HOL-Library.AList" "HOL-Library.Char_ord" "HOL-Library.List_Lexorder"
begin

section \<open>Python values, exceptions and dictionaries\<close>

text \<open>
  The client of \<^verbatim>\<open>almdrlib/client.py\<close> works on dynamically typed values: keyword
  arguments, header maps and JSON payloads. They are modelled by one datatype. Strings are
  held as their UTF-8 bytes (lexicographic comparison of the bytes is comparison by code
  point, as Python compares \<^verbatim>\<open>str\<close>). A dictionary keeps its insertion order, so it is
  an association list; its keys are strings, as keyword arguments and JSON objects have.
\<close>

datatype pyval =
    PNone
  | PBool bool
  | PInt int
  | PStr string
  | PBytes string
  | PList "pyval list"
  | PDict "(string \<times> pyval) list"

type_synonym pydict = "(string \<times> pyval) list"

text \<open>
  The exceptions the module raises or lets through. \<open>AlmdrlibValueError\<close> is the class of
  \<^verbatim>\<open>almdrlib.exceptions\<close>; \<open>ValueError\<close>, \<open>KeyError\<close>, \<open>TypeError\<close> and
  \<open>AttributeError\<close> are Python's own. A \<open>KeyError\<close> carries the key that was looked up.
\<close>

datatype error =
    AlmdrlibValueError string
  | ValueError string
  | KeyError pyval
  | TypeError string
  | AttributeError string

text \<open>Python's truth value of an object: what \<^verbatim>\<open>if x:\<close> and \<^verbatim>\<open>not x\<close> test.\<close>

fun truthy :: "pyval \<Rightarrow> bool" where
  "truthy PNone = False"
| "truthy (PBool b) = b"
| "truthy (PInt i) = (i \<noteq> 0)"
| "truthy (PStr s) = (s \<noteq> [])"
| "truthy (PBytes s) = (s \<noteq> [])"
| "truthy (PList xs) = (xs \<noteq> [])"
| "truthy (PDict kvs) = (kvs \<noteq> [])"

text \<open>
  Dictionary operations: \<^verbatim>\<open>k in d\<close>, \<^verbatim>\<open>d.get(k, default)\<close>, \<^verbatim>\<open>d[k] = v\<close> (a new key
  goes to the end, an old one keeps its place), \<^verbatim>\<open>d.pop(k, default)\<close> and
  \<^verbatim>\<open>d.update(other)\<close>.
\<close>

definition dict_has :: "(string \<times> 'a) list \<Rightarrow> string \<Rightarrow> bool" where
  "dict_has d k = (k \<in> set (map fst d))"

definition dict_get :: "pydict \<Rightarrow> string \<Rightarrow> pyval \<Rightarrow> pyval" where
  "dict_get d k dflt = (case map_of d k of None \<Rightarrow> dflt | Some v \<Rightarrow> v)"

definition dict_set :: "pydict \<Rightarrow> string \<Rightarrow> pyval \<Rightarrow> pydict" where
  "dict_set d k v = AList.update k v d"

definition dict_pop :: "pydict \<Rightarrow> string \<Rightarrow> pyval \<Rightarrow> pyval \<times> pydict" where
  "dict_pop d k dflt = (dict_get d k dflt, AList.delete k d)"

fun dict_update :: "pydict \<Rightarrow> pydict \<Rightarrow> pydict" where
  "dict_update d [] = d"
| "dict_update d ((k, v) # kvs) = dict_update (dict_set d k v) kvs"

text \<open>
  \<^verbatim>\<open>d.update(x)\<close> with a value that arrives from the caller: a mapping is merged. Any
  other value is reported as a \<open>TypeError\<close> (Python also accepts an iterable of pairs there,
  which has no counterpart among dictionaries with string keys).
\<close>

fun dict_update_val :: "pydict \<Rightarrow> pyval \<Rightarrow> error + pydict" where
  "dict_update_val d (PDict kvs) = Inr (dict_update d kvs)"
| "dict_update_val d v = Inl (TypeError ''object is not a mapping'')"

text \<open>
  \<^verbatim>\<open>delimiter.join(value)\<close>: the value is iterated and every item has to be a string. A
  list yields its elements, a string its characters, a dictionary its keys; nothing else
  is iterable here, and \<^verbatim>\<open>bytes\<close> yields integers.
\<close>

fun intercalate :: "string \<Rightarrow> string list \<Rightarrow> string" where
  "intercalate d [] = []"
| "intercalate d [x] = x"
| "intercalate d (x # y # ys) = x @ d @ intercalate d (y # ys)"

fun str_items :: "pyval list \<Rightarrow> string list option" where
  "str_items [] = Some []"
| "str_items (PStr s # xs) = (case str_items xs of None \<Rightarrow> None | Some ss \<Rightarrow> Some (s # ss))"
| "str_items (v # xs) = None"

fun py_join :: "string \<Rightarrow> pyval \<Rightarrow> error + string" where
  "py_join d (PList xs) =
     (case str_items xs of
        None \<Rightarrow> Inl (TypeError ''sequence item: expected str instance'')
      | Some ss \<Rightarrow> Inr (intercalate d ss))"
| "py_join d (PStr s) = Inr (intercalate d (map (\<lambda>c. [c]) s))"
| "py_join d (PDict kvs) = Inr (intercalate d (map fst kvs))"
| "py_join d (PBytes b) =
     (if b = [] then Inr [] else Inl (TypeError ''sequence item: expected str instance''))"
| "py_join d v = Inl (TypeError ''can only join an iterable'')"

text \<open>\<^verbatim>\<open>str.lower()\<close>, \<^verbatim>\<open>str.upper()\<close> on ASCII letters and \<^verbatim>\<open>name.replace('-', '_')\<close>.\<close>

definition char_lower :: "char \<Rightarrow> char" where
  "char_lower c =
     (case map_of (zip ''ABCDEFGHIJKLMNOPQRSTUVWXYZ'' ''abcdefghijklmnopqrstuvwxyz'') c of
        None \<Rightarrow> c
      | Some l \<Rightarrow> l)"

definition char_upper :: "char \<Rightarrow> char" where
  "char_upper c =
     (case map_of (zip ''abcdefghijklmnopqrstuvwxyz'' ''ABCDEFGHIJKLMNOPQRSTUVWXYZ'') c of
        None \<Rightarrow> c
      | Some u \<Rightarrow> u)"

definition lower :: "string \<Rightarrow> string" where
  "lower s = map char_lower s"

definition upper :: "string \<Rightarrow> string" where
  "upper s = map char_upper s"

definition replace_dash :: "string \<Rightarrow> string" where
  "replace_dash s = map (\<lambda>c. if c = CHR ''-'' then CHR ''_'' else c) s"

text \<open>
  Library functions the module calls and does not define: \<^verbatim>\<open>str(x)\<close> and
  \<^verbatim>\<open>json.dumps(x)\<close> (which raises on a value JSON cannot hold). They are parameters of
  the model: every result below holds for every choice of them.
\<close>

record builtins =
  py_str :: "pyval \<Rightarrow> string"
  json_dumps :: "pyval \<Rightarrow> error + string"

text \<open>
  The HTTP session collaborator, as far as serialization consults it:
  \<^verbatim>\<open>get_default(name)\<close> (\<open>PNone\<close> when the session has no default for the name) and
  \<^verbatim>\<open>get_url(service, account_id)\<close>.
\<close>

record session =
  get_default :: "string \<Rightarrow> pyval"
  get_url :: "string \<Rightarrow> pyval \<Rightarrow> error + string"

section \<open>Keywords of the OpenAPI document\<close>

text \<open>
  Modelled from the spec: the constants of \<^verbatim>\<open>alsdkdefs.OpenAPIKeyWord\<close>, which the
  module imports and whose declaration is not among the sources. The values are the
  OpenAPI 3 keywords the specification names: the locations \<^verbatim>\<open>path|query|header|cookie\<close>,
  the styles \<^verbatim>\<open>form\<close>, \<^verbatim>\<open>simple\<close>, \<^verbatim>\<open>spaceDelimited\<close>, \<^verbatim>\<open>pipeDelimited\<close>, the JSON
  Schema types, the \<^verbatim>\<open>Content-Type\<close> header and the \<^verbatim>\<open>content_type\<close> argument.
\<close>

abbreviation PATH :: string where "PATH \<equiv> ''path''"
abbreviation QUERY :: string where "QUERY \<equiv> ''query''"
abbreviation HEADER :: string where "HEADER \<equiv> ''header''"
abbreviation COOKIE :: string where "COOKIE \<equiv> ''cookie''"
abbreviation STRING :: string where "STRING \<equiv> ''string''"
abbreviation BOOLEAN :: string where "BOOLEAN \<equiv> ''boolean''"
abbreviation INTEGER :: string where "INTEGER \<equiv> ''integer''"
abbreviation OBJECT :: string where "OBJECT \<equiv> ''object''"
abbreviation ARRAY :: string where "ARRAY \<equiv> ''array''"
abbreviation PARAMETER_STYLE_FORM :: string where "PARAMETER_STYLE_FORM \<equiv> ''form''"
abbreviation PARAMETER_STYLE_SIMPLE :: string where "PARAMETER_STYLE_SIMPLE \<equiv> ''simple''"
abbreviation PARAMETER_STYLE_SPACE_DELIMITED :: string where
  "PARAMETER_STYLE_SPACE_DELIMITED \<equiv> ''spaceDelimited''"
abbreviation PARAMETER_STYLE_PIPE_DELIMITED :: string where
  "PARAMETER_STYLE_PIPE_DELIMITED \<equiv> ''pipeDelimited''"
abbreviation CONTENT_TYPE_PARAM :: string where "CONTENT_TYPE_PARAM \<equiv> ''Content-Type''"
abbreviation CONTENT_TYPE_PYTHON_PARAM :: string where
  "CONTENT_TYPE_PYTHON_PARAM \<equiv> ''content_type''"
abbreviation OPERATION_ID :: string where "OPERATION_ID \<equiv> ''operationId''"

section \<open>PathParameter\<close>

text \<open>
  One entry of an operation's \<^verbatim>\<open>parameters\<close> list, as \<^verbatim>\<open>PathParameter.__init__\<close>
  reads it: \<^verbatim>\<open>in\<close> and \<^verbatim>\<open>name\<close> are indexed, the other keys are read with
  \<^verbatim>\<open>get\<close> and may be absent.
\<close>

record param_spec =
  ps_in :: string
  ps_name :: string
  ps_required :: "bool option"
  ps_schema_type :: "string option"
  ps_style :: "string option"
  ps_explode :: "bool option"

record path_parameter =
  p_in :: string
  p_name :: string
  p_schema_name :: string
  p_required :: bool
  p_datatype :: string
  p_style :: string
  p_explode :: bool

definition default_style :: "string \<Rightarrow> string" where
  "default_style parameter_in =
     (if parameter_in = QUERY then PARAMETER_STYLE_FORM
      else if parameter_in = PATH then PARAMETER_STYLE_SIMPLE
      else if parameter_in = HEADER then PARAMETER_STYLE_SIMPLE
      else if parameter_in = COOKIE then PARAMETER_STYLE_FORM
      else PARAMETER_STYLE_SIMPLE)"

definition default_explode :: "string \<Rightarrow> bool" where
  "default_explode style = (if style = PARAMETER_STYLE_FORM then True else False)"

definition PathParameter :: "param_spec \<Rightarrow> path_parameter" where
  "PathParameter spec =
     (let style = (case ps_style spec of None \<Rightarrow> default_style (ps_in spec) | Some s \<Rightarrow> s)
      in \<lparr> p_in = ps_in spec,
           p_name = replace_dash (ps_name spec),
           p_schema_name = ps_name spec,
           p_required = (case ps_required spec of None \<Rightarrow> False | Some b \<Rightarrow> b),
           p_datatype = (case ps_schema_type spec of None \<Rightarrow> STRING | Some t \<Rightarrow> t),
           p_style = style,
           p_explode = (case ps_explode spec of None \<Rightarrow> default_explode style | Some b \<Rightarrow> b) \<rparr>)"

text \<open>
  The property \<^verbatim>\<open>required\<close>: the declared flag, or the location \<^verbatim>\<open>path\<close>. The
  property \<^verbatim>\<open>default\<close> asks the session and caches what is not \<^verbatim>\<open>None\<close>; with a
  session that answers the same every time it is the session's answer. (The client is
  taken to have a session: without one the property raises on every use.)
\<close>

definition required :: "path_parameter \<Rightarrow> bool" where
  "required p = (p_required p \<or> p_in p = PATH)"

definition default :: "session \<Rightarrow> path_parameter \<Rightarrow> pyval" where
  "default ses p = get_default ses (p_name p)"

definition serialize_value :: "builtins \<Rightarrow> string \<Rightarrow> pyval \<Rightarrow> pyval" where
  "serialize_value bi datatype v =
     (if STRING = datatype then v
      else if BOOLEAN = datatype then (if truthy v then PStr ''true'' else PStr ''false'')
      else PStr (py_str bi v))"

definition valid_styles :: "string list" where
  "valid_styles =
     [PARAMETER_STYLE_FORM, PARAMETER_STYLE_SPACE_DELIMITED, PARAMETER_STYLE_PIPE_DELIMITED]"

text \<open>
  \<^verbatim>\<open>value.items()\<close> of the object branch exists on a dictionary only; a pair is
  rendered by the f-string \<^verbatim>\<open>f'{a},{b}'\<close>, where the key is a string already.
\<close>

fun serialized_pairs :: "builtins \<Rightarrow> pyval \<Rightarrow> error + string list" where
  "serialized_pairs bi (PDict kvs) = Inr (map (\<lambda>(a, b). a @ '','' @ py_str bi b) kvs)"
| "serialized_pairs bi v = Inl (AttributeError ''object has no attribute items'')"

definition serialize_query_parameter ::
  "builtins \<Rightarrow> string \<Rightarrow> bool \<Rightarrow> string \<Rightarrow> string \<Rightarrow> pyval \<Rightarrow> error + pyval" where
  "serialize_query_parameter bi style explode name datatype v =
     (if style \<notin> set valid_styles then
        Inl (ValueError (name @ '' query parameter has invalid style: '' @ style))
      else if datatype = OBJECT \<and> style = PARAMETER_STYLE_FORM then
        (if explode then Inr v
         else (case serialized_pairs bi v of
                 Inl e \<Rightarrow> Inl e
               | Inr ps \<Rightarrow> Inr (PDict [(name, PStr (intercalate '','' ps))])))
      else if datatype = ARRAY then
        (if explode then Inr (PDict [(name, v)])
         else (let delimiter =
                     (if style = PARAMETER_STYLE_SPACE_DELIMITED then '' ''
                      else if style = PARAMETER_STYLE_PIPE_DELIMITED then ''|''
                      else '','')
               in (case py_join delimiter v of
                     Inl e \<Rightarrow> Inl e
                   | Inr s \<Rightarrow> Inr (PDict [(name, PStr s)]))))
      else if datatype = BOOLEAN then Inr (PDict [(name, PStr (lower (py_str bi v)))])
      else Inr (PDict [(name, v)]))"

text \<open>
  The four request parts a call fills and the keyword arguments it consumes.
  \<^verbatim>\<open>PathParameter.serialize\<close> mutates them; the model returns the new state and what the
  method returns (\<^verbatim>\<open>True\<close> after serializing, \<^verbatim>\<open>None\<close> when the parameter is skipped).
\<close>

record request_parts =
  path_params :: pydict
  query_params :: pydict
  headers :: pydict
  cookies :: pydict
  kwargs :: pydict

definition serialize ::
  "builtins \<Rightarrow> session \<Rightarrow> path_parameter \<Rightarrow> request_parts \<Rightarrow> error + (pyval \<times> request_parts)" where
  "serialize bi ses p st =
     (if \<not> dict_has (kwargs st) (p_name p) \<and> \<not> truthy (default ses p) then
        (if p_required p then Inl (ValueError ([CHR 0x27] @ p_name p @ [CHR 0x27] @ '' is required''))
         else Inr (PNone, st))
      else
        (let (raw_value, kw) = dict_pop (kwargs st) (p_name p) (default ses p);
             st1 = st\<lparr>kwargs := kw\<rparr>;
             v = serialize_value bi (p_datatype p) raw_value
         in if p_in p = PATH then
              Inr (PBool True, st1\<lparr>path_params := dict_set (path_params st1) (p_schema_name p) v\<rparr>)
            else if p_in p = QUERY then
              (case serialize_query_parameter bi (p_style p) (p_explode p) (p_name p)
                      (p_datatype p) raw_value of
                 Inl e \<Rightarrow> Inl e
               | Inr new_query_params \<Rightarrow>
                   (case dict_update_val (query_params st1) new_query_params of
                      Inl e \<Rightarrow> Inl e
                    | Inr q \<Rightarrow> Inr (PBool True, st1\<lparr>query_params := q\<rparr>)))
            else if p_in p = HEADER then
              Inr (PBool True, st1\<lparr>headers := dict_set (headers st1) (p_schema_name p) v\<rparr>)
            else if p_in p = COOKIE then
              Inr (PBool True, st1\<lparr>cookies := dict_set (cookies st1) (p_schema_name p) v\<rparr>)
            else Inr (PBool True, st1)))"

text \<open>
  \<^verbatim>\<open>PathParameter.__lt__\<close>, from which \<^verbatim>\<open>functools.total_ordering\<close> derives the
  other comparisons and which \<^verbatim>\<open>sorted\<close> calls. A location outside the rank table
  gives \<^verbatim>\<open>None\<close>, and comparing \<^verbatim>\<open>None\<close> raises a \<open>TypeError\<close>. Both operands are
  parameters, so the first test of the method (on the operands' types) never applies.
\<close>

definition location_ranks :: "string \<Rightarrow> nat option" where
  "location_ranks l =
     (if l = PATH then Some 0
      else if l = QUERY then Some 1
      else if l = HEADER then Some 2
      else if l = COOKIE then Some 3
      else None)"

definition lt :: "session \<Rightarrow> path_parameter \<Rightarrow> path_parameter \<Rightarrow> error + bool" where
  "lt ses self other =
     (if required self \<and> \<not> required other then Inr True
      else if default ses self = PNone \<and> default ses other \<noteq> PNone then Inr True
      else (case (location_ranks (p_in self), location_ranks (p_in other)) of
              (Some a, Some b) \<Rightarrow> if a < b then Inr True else Inr (p_name self < p_name other)
            | _ \<Rightarrow> Inl (TypeError ''< not supported between instances of NoneType and int'')))"

section \<open>Request bodies\<close>

text \<open>
  What every \<^verbatim>\<open>RequestBodyParameter\<close> holds. The validator that
  \<^verbatim>\<open>jsonschema\<close> builds from the parameter's schema is a function of the payload: it
  gives the message of the validation error, or nothing when the payload passes.
\<close>

record body_parameter =
  rbp_name :: string
  rbp_content_type :: string
  rbp_required :: bool
  rbp_validator :: "pyval \<Rightarrow> string option"

text \<open>
  The three variants. A simple parameter also holds the \<^verbatim>\<open>format\<close> of its schema; an
  object parameter holds whether its encoding asks to explode, the keys of its
  \<^verbatim>\<open>_properties\<close> in their order, and its \<^verbatim>\<open>_required_properties\<close>.
\<close>

datatype request_body_parameter =
    SchemaParameter body_parameter
  | SimpleParameter body_parameter "string option"
  | ObjectParameter body_parameter bool "string list" "string list"

definition validate :: "body_parameter \<Rightarrow> pyval \<Rightarrow> error option" where
  "validate b data =
     (case rbp_validator b data of
        None \<Rightarrow> None
      | Some m \<Rightarrow> Some (AlmdrlibValueError (''Validation Error: '' @ m)))"

text \<open>
  \<^verbatim>\<open>RequestBodySchemaParameter.serialize\<close>, \<^verbatim>\<open>RequestBodySimpleParameter.serialize\<close>
  and \<^verbatim>\<open>RequestBodyObjectParameter.serialize\<close>. Each mutates the keyword arguments,
  leaving the payload under \<^verbatim>\<open>data\<close>; the model returns the new keyword arguments.
\<close>

definition schema_serialize :: "builtins \<Rightarrow> body_parameter \<Rightarrow> pydict \<Rightarrow> error + pydict" where
  "schema_serialize bi b kw =
     (let (data, kw1) = dict_pop kw (rbp_name b) (PDict [])
      in if rbp_content_type b \<in> set [''application/json'', ''alertlogic/json''] then
           (case validate b data of
              Some e \<Rightarrow> Inl e
            | None \<Rightarrow>
                (case json_dumps bi data of
                   Inl e \<Rightarrow> Inl e
                 | Inr s \<Rightarrow> Inr (dict_set kw1 ''data'' (PStr s))))
         else Inr (dict_set kw1 ''data'' data))"

fun is_bytes :: "pyval \<Rightarrow> bool" where
  "is_bytes (PBytes b) = True"
| "is_bytes v = False"

fun encode :: "pyval \<Rightarrow> error + pyval" where
  "encode (PStr s) = Inr (PBytes s)"
| "encode v = Inl (AttributeError ''object has no attribute encode'')"

definition simple_serialize ::
  "body_parameter \<Rightarrow> string option \<Rightarrow> pydict \<Rightarrow> error + pydict" where
  "simple_serialize b fmt kw =
     (let (data, kw1) = dict_pop kw (rbp_name b) (PStr [])
      in if fmt = Some ''binary'' \<and> \<not> is_bytes data then
           (case encode data of
              Inl e \<Rightarrow> Inl e
            | Inr d \<Rightarrow> Inr (dict_set kw1 ''data'' d))
         else Inr (dict_set kw1 ''data'' data))"

text \<open>
  The dictionary comprehension of the object variant: the properties that are among the
  keyword arguments, each popped from them as it is collected.
\<close>

fun collect :: "string list \<Rightarrow> pydict \<Rightarrow> pydict \<times> pydict" where
  "collect [] kw = ([], kw)"
| "collect (k # ks) kw =
     (if dict_has kw k then
        (let (v, kw1) = dict_pop kw k PNone;
             (r, kw2) = collect ks kw1
         in ((k, v) # r, kw2))
      else collect ks kw)"

definition required_message :: "builtins \<Rightarrow> string list \<Rightarrow> pydict \<Rightarrow> string" where
  "required_message bi required_properties kw =
     [CHR 0x27] @ py_str bi (PList (map PStr required_properties)) @ [CHR 0x27] @
     '' parameters are required. '' @
     [CHR 0x27] @ py_str bi (PDict kw) @ [CHR 0x27] @ '' were provided.''"

definition at_least_one_message :: "builtins \<Rightarrow> string list \<Rightarrow> string" where
  "at_least_one_message bi properties =
     ''At least one the '' @ ''dict_keys('' @ py_str bi (PList (map PStr properties)) @ '')'' @
     '' parameters must be specified.''"

definition object_serialize ::
  "builtins \<Rightarrow> body_parameter \<Rightarrow> bool \<Rightarrow> string list \<Rightarrow> string list \<Rightarrow> pydict \<Rightarrow> error + pydict" where
  "object_serialize bi b explode properties required_properties kw =
     (if \<not> list_all (dict_has kw) required_properties then
        Inl (AlmdrlibValueError (required_message bi required_properties kw))
      else
        (let (result, kw1) = collect properties kw
         in if rbp_required b \<and> result = [] then
              Inl (AlmdrlibValueError (at_least_one_message bi properties))
            else
              (case validate b (PDict result) of
                 Some e \<Rightarrow> Inl e
               | None \<Rightarrow>
                   (if explode then
                      (case map_of result (rbp_name b) of
                         None \<Rightarrow> Inl (KeyError (PStr (rbp_name b)))
                       | Some v \<Rightarrow>
                           (case json_dumps bi v of
                              Inl e \<Rightarrow> Inl e
                            | Inr s \<Rightarrow> Inr (dict_set kw1 ''data'' (PStr s))))
                    else
                      (case json_dumps bi (PDict result) of
                         Inl e \<Rightarrow> Inl e
                       | Inr s \<Rightarrow> Inr (dict_set kw1 ''data'' (PStr s)))))))"

fun parameter_serialize :: "builtins \<Rightarrow> request_body_parameter \<Rightarrow> pydict \<Rightarrow> error + pydict" where
  "parameter_serialize bi (SchemaParameter b) kw = schema_serialize bi b kw"
| "parameter_serialize bi (SimpleParameter b fmt) kw = simple_serialize b fmt kw"
| "parameter_serialize bi (ObjectParameter b explode properties required_properties) kw =
     object_serialize bi b explode properties required_properties kw"

text \<open>
  \<^verbatim>\<open>RequestBody\<close>: the map \<^verbatim>\<open>_content\<close> from content type to parameter, in the order
  the content types were added, and the map \<^verbatim>\<open>_parameters\<close> from parameter name to the
  schemas under that name.
\<close>

record request_body =
  rb_required :: bool
  rb_content :: "(string \<times> request_body_parameter) list"
  rb_parameters :: pydict

text \<open>
  The property \<^verbatim>\<open>default_content_type\<close>: the only key of \<^verbatim>\<open>_content\<close> when there is
  exactly one, otherwise \<^verbatim>\<open>None\<close>.
\<close>

definition default_content_type :: "request_body \<Rightarrow> string option" where
  "default_content_type rb =
     (if length (rb_content rb) = 1 then Some (fst (hd (rb_content rb))) else None)"

text \<open>
  \<^verbatim>\<open>self._content[content_type]\<close> with a key that arrives from the caller: a key that
  is not in the map raises \<open>KeyError\<close>, a key that cannot be hashed raises \<open>TypeError\<close>.
\<close>

fun lookup_error :: "pyval \<Rightarrow> error" where
  "lookup_error (PList xs) = TypeError ''unhashable type: list''"
| "lookup_error (PDict kvs) = TypeError ''unhashable type: dict''"
| "lookup_error v = KeyError v"

fun content_getitem :: "(string \<times> 'a) list \<Rightarrow> pyval \<Rightarrow> error + 'a" where
  "content_getitem c (PStr s) =
     (case map_of c s of None \<Rightarrow> Inl (lookup_error (PStr s)) | Some p \<Rightarrow> Inr p)"
| "content_getitem c v = Inl (lookup_error v)"

definition with_headers :: "pydict \<Rightarrow> error + pydict \<Rightarrow> error + (pydict \<times> pydict)" where
  "with_headers h r = (case r of Inl e \<Rightarrow> Inl e | Inr kw \<Rightarrow> Inr (h, kw))"

definition content_type_required :: error where
  "content_type_required =
     AlmdrlibValueError ([CHR 0x27] @ CONTENT_TYPE_PYTHON_PARAM @ [CHR 0x27] @ ''parameter is required.'')"

text \<open>
  \<^verbatim>\<open>RequestBody.serialize(headers, kwargs)\<close>. It returns nothing; the model returns the
  headers and the keyword arguments as the call leaves them.
\<close>

definition body_serialize ::
  "builtins \<Rightarrow> request_body \<Rightarrow> pydict \<Rightarrow> pydict \<Rightarrow> error + (pydict \<times> pydict)" where
  "body_serialize bi rb hdrs kw =
     (if dict_has kw CONTENT_TYPE_PYTHON_PARAM then
        (let (content_type, kw1) = dict_pop kw CONTENT_TYPE_PYTHON_PARAM PNone
         in (case content_getitem (rb_content rb) content_type of
               Inl e \<Rightarrow> Inl e
             | Inr payload_body_param \<Rightarrow>
                 with_headers (dict_set hdrs CONTENT_TYPE_PARAM content_type)
                   (parameter_serialize bi payload_body_param kw1)))
      else if dict_has hdrs CONTENT_TYPE_PARAM then
        (let content_type = dict_get hdrs CONTENT_TYPE_PARAM PNone
         in (case content_getitem (rb_content rb) content_type of
               Inl e \<Rightarrow> Inl e
             | Inr payload_body_param \<Rightarrow>
                 with_headers hdrs (parameter_serialize bi payload_body_param kw)))
      else
        (case default_content_type rb of
           None \<Rightarrow> Inl content_type_required
         | Some ct \<Rightarrow>
             (if ct = [] then Inl content_type_required
              else (case content_getitem (rb_content rb) (PStr ct) of
                      Inl e \<Rightarrow> Inl e
                    | Inr payload_body_param \<Rightarrow>
                        with_headers (dict_set hdrs CONTENT_TYPE_PARAM (PStr ct))
                          (parameter_serialize bi payload_body_param kw)))))"

section \<open>Operations\<close>

record server =
  srv_service_name :: string
  srv_url :: string

definition update_url :: "session \<Rightarrow> server \<Rightarrow> pyval \<Rightarrow> error + server" where
  "update_url ses srv account_id =
     (case get_url ses (srv_service_name srv) account_id of
        Inl e \<Rightarrow> Inl e
      | Inr u \<Rightarrow> Inr (srv\<lparr>srv_url := u\<rparr>))"

record operation =
  op_path :: string
  op_params :: "path_parameter list"
  op_http_method :: string
  op_body :: "request_body option"
  op_operation_id :: string
  op_client_name :: string
  op_description :: string

text \<open>The loop over the declared parameters: the first exception ends the call.\<close>

fun serialize_params ::
  "builtins \<Rightarrow> session \<Rightarrow> path_parameter list \<Rightarrow> request_parts \<Rightarrow> error + request_parts" where
  "serialize_params bi ses [] st = Inr st"
| "serialize_params bi ses (p # ps) st =
     (case serialize bi ses p st of
        Inl e \<Rightarrow> Inl e
      | Inr (r, st1) \<Rightarrow> serialize_params bi ses ps st1)"

text \<open>
  The closure \<^verbatim>\<open>f\<close> that \<^verbatim>\<open>_gen_call\<close> builds. Its last part (the renaming of the
  arguments with the internal prefix, the merge of the request parts into the keyword
  arguments, the formatting of the URL and \<^verbatim>\<open>session.request\<close>) is the parameter
  \<open>dispatch\<close>: it belongs to the transport. The server is shared and \<^verbatim>\<open>update_url\<close>
  mutates it, so the call returns the server beside its result or exception.
\<close>

definition gen_call ::
  "builtins \<Rightarrow> session \<Rightarrow> (operation \<Rightarrow> server \<Rightarrow> request_parts \<Rightarrow> error + pyval) \<Rightarrow>
   operation \<Rightarrow> server \<Rightarrow> pydict \<Rightarrow> server \<times> (error + pyval)" where
  "gen_call bi ses dispatch op srv kw =
     (let account_id = dict_get kw ''account_id'' PNone
      in (case (if truthy account_id then update_url ses srv account_id else Inr srv) of
            Inl e \<Rightarrow> (srv, Inl e)
          | Inr srv1 \<Rightarrow>
              (case serialize_params bi ses (op_params op)
                      \<lparr> path_params = [], query_params = [], headers = [], cookies = [],
                        kwargs = kw \<rparr> of
                 Inl e \<Rightarrow> (srv1, Inl e)
               | Inr st \<Rightarrow>
                   (case op_body op of
                      None \<Rightarrow> (srv1, dispatch op srv1 st)
                    | Some body \<Rightarrow>
                        (case body_serialize bi body (headers st) (kwargs st) of
                           Inl e \<Rightarrow> (srv1, Inl e)
                         | Inr (h, kw1) \<Rightarrow>
                             (srv1, dispatch op srv1 (st\<lparr>headers := h, kwargs := kw1\<rparr>)))))))"

text \<open>
  \<^verbatim>\<open>Operation.__repr__\<close> and \<^verbatim>\<open>Operation.__call__\<close> with keyword arguments (the
  closure takes no positional ones). The handler catches \<open>AlmdrlibValueError\<close> only; the
  exception prints as its message.
\<close>

definition repr :: "operation \<Rightarrow> string" where
  "repr op =
     ''<'' @ op_client_name op @ ''.'' @ op_operation_id op @ '': '' @
     upper (op_http_method op) @ '' '' @ op_path op @ ''>''"

definition call ::
  "builtins \<Rightarrow> session \<Rightarrow> (operation \<Rightarrow> server \<Rightarrow> request_parts \<Rightarrow> error + pyval) \<Rightarrow>
   operation \<Rightarrow> server \<Rightarrow> pydict \<Rightarrow> server \<times> (error + pyval)" where
  "call bi ses dispatch op srv kw =
     (case gen_call bi ses dispatch op srv kw of
        (srv1, Inl (AlmdrlibValueError e)) \<Rightarrow>
          (srv1, Inl (AlmdrlibValueError (repr op @ '' failed '' @ e)))
      | r \<Rightarrow> r)"

text \<open>
  The arguments of one \<^verbatim>\<open>inspect.Parameter\<close> (all are keyword-only): the name, the
  default (nothing for \<^verbatim>\<open>Parameter.empty\<close>) and the annotation, a Python type by its
  name.
\<close>

record sig_parameter =
  sp_name :: string
  sp_default :: "pyval option"
  sp_annotation :: "string option"

definition openapi_type_to_python_data_type :: "string \<Rightarrow> string option" where
  "openapi_type_to_python_data_type data_type =
     map_of [(STRING, ''str''), (BOOLEAN, ''bool''), (INTEGER, ''int''), (OBJECT, ''dict''),
             (ARRAY, ''list'')] data_type"

definition to_inspect_parameter :: "session \<Rightarrow> path_parameter \<Rightarrow> sig_parameter" where
  "to_inspect_parameter ses p =
     \<lparr> sp_name = p_name p,
       sp_default = (if truthy (default ses p) then Some (default ses p) else None),
       sp_annotation = openapi_type_to_python_data_type (p_datatype p) \<rparr>"

text \<open>
  \<^verbatim>\<open>Operation._make_signature\<close>. \<open>body_params\<close> is the list of that name which the
  method fills when the operation has a body. \<^verbatim>\<open>sorted\<close> is Python's; it is a
  parameter, given the comparison \<^verbatim>\<open>__lt__\<close>. The result is the list handed to
  \<^verbatim>\<open>inspect.Signature\<close>; the checks that \<^verbatim>\<open>inspect\<close> makes on the names are the
  library's and are not part of it.
\<close>

definition content_type_parameter :: "request_body \<Rightarrow> sig_parameter" where
  "content_type_parameter body =
     \<lparr> sp_name = CONTENT_TYPE_PYTHON_PARAM,
       sp_default = (case default_content_type body of
                       None \<Rightarrow> None
                     | Some ct \<Rightarrow> if ct = [] then None else Some (PStr ct)),
       sp_annotation = Some ''str'' \<rparr>"

definition body_params :: "operation \<Rightarrow> sig_parameter list" where
  "body_params op =
     (case op_body op of
        None \<Rightarrow> []
      | Some body \<Rightarrow>
          (let ct_present = CONTENT_TYPE_PYTHON_PARAM \<in> set (map p_name (op_params op))
           in (if \<not> ct_present then [content_type_parameter body] else []) @
              map (\<lambda>body_param. \<lparr> sp_name = body_param, sp_default = None, sp_annotation = None \<rparr>)
                (map fst (rb_parameters body))))"

definition make_signature ::
  "((path_parameter \<Rightarrow> path_parameter \<Rightarrow> error + bool) \<Rightarrow> path_parameter list \<Rightarrow>
      error + path_parameter list) \<Rightarrow>
   session \<Rightarrow> operation \<Rightarrow> error + sig_parameter list" where
  "make_signature py_sorted ses op =
     (case py_sorted (lt ses) (op_params op) of
        Inl e \<Rightarrow> Inl e
      | Inr ps \<Rightarrow>
          Inr (map (to_inspect_parameter ses) (filter required ps) @
               body_params op @
               map (to_inspect_parameter ses) (filter (\<lambda>p. \<not> required p) ps)))"

section \<open>Loading the operations of a client\<close>

text \<open>
  One method of one path of the document: what \<^verbatim>\<open>op_spec.get('operationId')\<close> gives
  (nothing when the key is absent) and the rest of the sub-document. The \<^verbatim>\<open>paths\<close>
  section maps a path to its methods, in the order of the document.
\<close>

record 'a op_spec =
  os_operation_id :: "string option"
  os_rest :: 'a

type_synonym 'a paths = "(string \<times> (string \<times> 'a op_spec) list) list"

definition missing_id_warning :: "string \<Rightarrow> string \<Rightarrow> string" where
  "missing_id_warning http_method path =
     [CHR 0x27] @ OPERATION_ID @ [CHR 0x27] @ '' not found in: '' @ replicate 26 CHR '' '' @
     [CHR 0x27] @ ''['' @ http_method @ ''] '' @ path @ [CHR 0x27]"

definition duplication_error :: "string \<Rightarrow> string \<Rightarrow> error" where
  "duplication_error operation_id client_name =
     AlmdrlibValueError (''Duplication '' @ operation_id @ '' '' @ replicate 39 CHR '' '' @
       ''specified for '' @ client_name @ '' API'')"

text \<open>
  \<^verbatim>\<open>Client._initialize_operations\<close>. The construction of the parameters, the request
  body, the response and the \<^verbatim>\<open>Operation\<close> of one method is the parameter \<open>build\<close>,
  which may raise; the summary and the description, which the loop pops from the
  sub-document before it tests the id, go to that constructor only. The state of the loops
  is the log of warnings and the map \<^verbatim>\<open>_operations\<close>; the log outlives an exception.
\<close>

fun methods_loop ::
  "(string \<Rightarrow> string \<Rightarrow> 'a \<Rightarrow> error + 'b) \<Rightarrow> string \<Rightarrow> string \<Rightarrow> (string \<times> 'a op_spec) list \<Rightarrow>
   string list \<times> (string \<times> 'b) list \<Rightarrow> string list \<times> (error + (string \<times> 'b) list)" where
  "methods_loop build client_name path [] (log, operations) = (log, Inr operations)"
| "methods_loop build client_name path ((http_method, op_spec) # ms) (log, operations) =
     (case os_operation_id op_spec of
        None \<Rightarrow>
          methods_loop build client_name path ms
            (log @ [missing_id_warning http_method path], operations)
      | Some operation_id \<Rightarrow>
          (if operation_id = [] then
             methods_loop build client_name path ms
               (log @ [missing_id_warning http_method path], operations)
           else if dict_has operations operation_id then
             (log, Inl (duplication_error operation_id client_name))
           else
             (case build path http_method (os_rest op_spec) of
                Inl e \<Rightarrow> (log, Inl e)
              | Inr operation \<Rightarrow>
                  methods_loop build client_name path ms
                    (log, operations @ [(operation_id, operation)]))))"

fun paths_loop ::
  "(string \<Rightarrow> string \<Rightarrow> 'a \<Rightarrow> error + 'b) \<Rightarrow> string \<Rightarrow> 'a paths \<Rightarrow>
   string list \<times> (string \<times> 'b) list \<Rightarrow> string list \<times> (error + (string \<times> 'b) list)" where
  "paths_loop build client_name [] (log, operations) = (log, Inr operations)"
| "paths_loop build client_name ((path, path_spec) # ps) (log, operations) =
     (case methods_loop build client_name path path_spec (log, operations) of
        (log1, Inl e) \<Rightarrow> (log1, Inl e)
      | (log1, Inr operations1) \<Rightarrow> paths_loop build client_name ps (log1, operations1))"

definition initialize_operations ::
  "(string \<Rightarrow> string \<Rightarrow> 'a \<Rightarrow> error + 'b) \<Rightarrow> string \<Rightarrow> 'a paths \<Rightarrow>
   string list \<times> (error + (string \<times> 'b) list)" where
  "initialize_operations build client_name paths = paths_loop build client_name paths ([], [])"

text \<open>
  For stating what a load does: a sub-document lacks an operation id when
  \<^verbatim>\<open>get('operationId')\<close> gives nothing or the empty string (the test is
  \<^verbatim>\<open>if not operation_id\<close>); \<open>operation_ids\<close> lists the ids of the other sub-documents
  in the order of the loops.
\<close>

definition lacks_id :: "'a op_spec \<Rightarrow> bool" where
  "lacks_id s = (os_operation_id s = None \<or> os_operation_id s = Some [])"

fun method_ids :: "(string \<times> 'a op_spec) list \<Rightarrow> string list" where
  "method_ids [] = []"
| "method_ids ((m, s) # ms) =
     (case os_operation_id s of
        None \<Rightarrow> method_ids ms
      | Some i \<Rightarrow> if i = [] then method_ids ms else i # method_ids ms)"

fun operation_ids :: "'a paths \<Rightarrow> string list" where
  "operation_ids [] = []"
| "operation_ids ((path, ms) # ps) = method_ids ms @ operation_ids ps"

section \<open>Concrete inputs\<close>

text \<open>
  The inputs of the concrete evaluations below. \<open>sample_builtins\<close> fixes the library
  functions on the values those evaluations reach: \<^verbatim>\<open>str\<close> of a string is the string, and
  \<^verbatim>\<open>json.dumps({})\<close> is \<^verbatim>\<open>{}\<close>. \<open>no_defaults\<close> is a session that has no default for
  any parameter, \<open>default_for_Q\<close> one that has a default for the parameter \<^verbatim>\<open>Q\<close> only.
\<close>

definition sample_builtins :: builtins where
  "sample_builtins =
     \<lparr> py_str = (\<lambda>v. case v of PStr s \<Rightarrow> s | _ \<Rightarrow> []),
       json_dumps = (\<lambda>v. Inr ''{}'') \<rparr>"

definition no_defaults :: session where
  "no_defaults = \<lparr> get_default = (\<lambda>n. PNone), get_url = (\<lambda>s a. Inr ''https://api'') \<rparr>"

definition default_for_Q :: session where
  "default_for_Q =
     \<lparr> get_default = (\<lambda>n. if n = ''Q'' then PInt 10 else PNone),
       get_url = (\<lambda>s a. Inr ''https://api'') \<rparr>"

definition empty_parts :: request_parts where
  "empty_parts = \<lparr> path_params = [], query_params = [], headers = [], cookies = [], kwargs = [] \<rparr>"

definition param_in :: "string \<Rightarrow> string \<Rightarrow> bool option \<Rightarrow> path_parameter" where
  "param_in location name req =
     PathParameter \<lparr> ps_in = location, ps_name = name, ps_required = req,
                     ps_schema_type = None, ps_style = None, ps_explode = None \<rparr>"

text \<open>
  Request bodies: a validator that accepts every payload, an object parameter with the
  properties \<^verbatim>\<open>name\<close> and \<^verbatim>\<open>tags\<close> (none of them required by the schema), a plain
  text parameter, a body that declares both content types and a body that declares one.
\<close>

definition accept_all :: "pyval \<Rightarrow> string option" where
  "accept_all data = None"

definition json_object :: "bool \<Rightarrow> request_body_parameter" where
  "json_object req =
     ObjectParameter \<lparr> rbp_name = ''data'', rbp_content_type = ''application/json'',
                       rbp_required = req, rbp_validator = accept_all \<rparr>
       False [''name'', ''tags''] []"

definition plain_text :: request_body_parameter where
  "plain_text =
     SimpleParameter \<lparr> rbp_name = ''data'', rbp_content_type = ''text/plain'',
                       rbp_required = False, rbp_validator = accept_all \<rparr> None"

definition two_types :: request_body where
  "two_types =
     \<lparr> rb_required = False,
       rb_content = [(''application/json'', json_object False), (''text/plain'', plain_text)],
       rb_parameters =
         [(''data'', PDict [(''application/json'', PDict []), (''text/plain'', PDict [])])] \<rparr>"

definition one_type :: request_body where
  "one_type =
     \<lparr> rb_required = False,
       rb_content = [(''text/plain'', plain_text)],
       rb_parameters = [(''data'', PDict [(''text/plain'', PDict [])])] \<rparr>"

text \<open>
  An operation \<^verbatim>\<open>create_thing\<close> of the client \<^verbatim>\<open>things\<close>, with the given parameters
  and body.
\<close>

definition operation_with :: "path_parameter list \<Rightarrow> request_body option \<Rightarrow> operation" where
  "operation_with ps body =
     \<lparr> op_path = ''/things'', op_params = ps, op_http_method = ''post'', op_body = body,
       op_operation_id = ''create_thing'', op_client_name = ''things'', op_description = [] \<rparr>"

text \<open>
  Documents: the sub-document of a method with an id or without one, a constructor of
  operations that never raises, a document whose second method has no id, the same
  document without that method, and a document that uses one id twice.
\<close>

definition with_id :: "string \<Rightarrow> unit op_spec" where
  "with_id i = \<lparr> os_operation_id = Some i, os_rest = () \<rparr>"

definition without_id :: "unit op_spec" where
  "without_id = \<lparr> os_operation_id = None, os_rest = () \<rparr>"

definition build_pair :: "string \<Rightarrow> string \<Rightarrow> unit \<Rightarrow> error + string \<times> string" where
  "build_pair path http_method rest = Inr (http_method, path)"

definition missing_id_document :: "unit paths" where
  "missing_id_document =
     [(''/things'', [(''get'', with_id ''list_things''), (''post'', without_id)])]"

definition complete_document :: "unit paths" where
  "complete_document = [(''/things'', [(''get'', with_id ''list_things'')])]"

definition duplicate_document :: "unit paths" where
  "duplicate_document =
     [(''/things'', [(''get'', with_id ''list_things'')]),
      (''/items'', [(''get'', with_id ''list_things'')])]"

section \<open>Missing required parameters\<close>

text \<open>
  C2. A parameter declared required, in any location, whose name is not among the keyword
  arguments and for which the session has no default (\<^verbatim>\<open>get_default\<close> gives a value
  that is not true, \<^verbatim>\<open>None\<close> in particular), makes \<^verbatim>\<open>serialize\<close> raise a
  \<open>ValueError\<close> whose message is the parameter's name in quotes followed by
  \<^verbatim>\<open>is required\<close>.
\<close>

theorem missing_required_parameter_raises:
  assumes "p_required p"
    and "\<not> dict_has (kwargs st) (p_name p)"
    and "\<not> truthy (get_default ses (p_name p))"
  shows "serialize bi ses p st =
           Inl (ValueError ([CHR 0x27] @ p_name p @ [CHR 0x27] @ '' is required''))"
  using assms by (simp add: serialize_def default_def)

theorem missing_required_parameter_raises_witness:
  "p_required (param_in QUERY ''limit'' (Some True)) \<and>
   \<not> dict_has (kwargs empty_parts) (p_name (param_in QUERY ''limit'' (Some True))) \<and>
   \<not> truthy (get_default no_defaults (p_name (param_in QUERY ''limit'' (Some True)))) \<and>
   serialize sample_builtins no_defaults (param_in QUERY ''limit'' (Some True)) empty_parts =
     Inl (ValueError ([CHR 0x27] @ ''limit'' @ [CHR 0x27] @ '' is required''))"
proof -
  have a: "p_required (param_in QUERY ''limit'' (Some True))"
    by (simp add: param_in_def PathParameter_def Let_def)
  have b: "\<not> dict_has (kwargs empty_parts) (p_name (param_in QUERY ''limit'' (Some True)))"
    by (simp add: dict_has_def empty_parts_def)
  have c: "\<not> truthy (get_default no_defaults (p_name (param_in QUERY ''limit'' (Some True))))"
    by (simp add: no_defaults_def)
  have n: "p_name (param_in QUERY ''limit'' (Some True)) = ''limit''"
    by (simp add: param_in_def PathParameter_def Let_def replace_dash_def)
  from missing_required_parameter_raises [OF a b c, of sample_builtins] a b c n
  show ?thesis by simp
qed

section \<open>Path parameters and the declared flag\<close>

text \<open>
  C3. The property \<^verbatim>\<open>required\<close> makes every \<^verbatim>\<open>path\<close> parameter required, but
  \<^verbatim>\<open>serialize\<close> reads the declared flag \<^verbatim>\<open>_required\<close>: for a path parameter
  declared without the flag, a call that has neither the argument nor a default returns
  \<^verbatim>\<open>None\<close> from \<^verbatim>\<open>serialize\<close> and leaves every request part as it was, although the
  property \<^verbatim>\<open>required\<close> is true of the parameter.
\<close>

theorem path_parameter_without_flag_is_skipped:
  "required (param_in PATH ''id'' None) \<and>
   serialize bi no_defaults (param_in PATH ''id'' None) empty_parts = Inr (PNone, empty_parts)"
  by (simp add: required_def serialize_def default_def param_in_def PathParameter_def Let_def
      replace_dash_def no_defaults_def empty_parts_def dict_has_def)

section \<open>The order of parameters\<close>

text \<open>
  C4. \<^verbatim>\<open>__lt__\<close> is not a strict order. For the parameters of the specification's own
  example (a required header \<^verbatim>\<open>H\<close> without default, an optional query parameter \<^verbatim>\<open>Q\<close> with
  a default, a required path parameter \<^verbatim>\<open>P\<close>) it holds in both directions between
  \<^verbatim>\<open>Q\<close> and \<^verbatim>\<open>H\<close> (by location one way, by requiredness the other) and in both
  directions between \<^verbatim>\<open>P\<close> and \<^verbatim>\<open>H\<close> (by location one way, by name the other).
\<close>

theorem lt_holds_in_both_directions:
  "lt default_for_Q (param_in QUERY ''Q'' None) (param_in HEADER ''H'' (Some True)) = Inr True \<and>
   lt default_for_Q (param_in HEADER ''H'' (Some True)) (param_in QUERY ''Q'' None) = Inr True \<and>
   lt default_for_Q (param_in PATH ''P'' (Some True)) (param_in HEADER ''H'' (Some True)) = Inr True \<and>
   lt default_for_Q (param_in HEADER ''H'' (Some True)) (param_in PATH ''P'' (Some True)) = Inr True"
  by (simp add: lt_def required_def default_def param_in_def PathParameter_def Let_def
      replace_dash_def default_for_Q_def location_ranks_def)

section \<open>Array query parameters\<close>





section \<open>Choosing the content type of a body\<close>

text \<open>
  C1. \<^verbatim>\<open>RequestBody.serialize\<close> chooses the governing content type in three tiers. A
  \<^verbatim>\<open>content_type\<close> argument is taken first: it is removed from the arguments, the
  parameter declared for it serializes the rest, and it is written into the headers. With
  no such argument, a \<^verbatim>\<open>Content-Type\<close> entry of the headers is taken and the headers stay
  as they are. With neither, the only declared content type is taken and written into the
  headers; the test on it is a truth test, so it has to be a string that is not empty.
  Otherwise (no content type or several declared, or an empty one) the call raises the
  error whose message is \<^verbatim>\<open>'content_type'parameter is required.\<close>
\<close>

theorem content_type_selection:
  "(dict_has kw CONTENT_TYPE_PYTHON_PARAM \<and>
    content_getitem (rb_content rb) (dict_get kw CONTENT_TYPE_PYTHON_PARAM PNone) = Inr p \<longrightarrow>
      body_serialize bi rb hdrs kw =
        with_headers (dict_set hdrs CONTENT_TYPE_PARAM (dict_get kw CONTENT_TYPE_PYTHON_PARAM PNone))
          (parameter_serialize bi p (AList.delete CONTENT_TYPE_PYTHON_PARAM kw))) \<and>
   (\<not> dict_has kw CONTENT_TYPE_PYTHON_PARAM \<and> dict_has hdrs CONTENT_TYPE_PARAM \<and>
    content_getitem (rb_content rb) (dict_get hdrs CONTENT_TYPE_PARAM PNone) = Inr p \<longrightarrow>
      body_serialize bi rb hdrs kw = with_headers hdrs (parameter_serialize bi p kw)) \<and>
   (\<not> dict_has kw CONTENT_TYPE_PYTHON_PARAM \<and> \<not> dict_has hdrs CONTENT_TYPE_PARAM \<and>
    rb_content rb = [(ct, p)] \<and> ct \<noteq> [] \<longrightarrow>
      body_serialize bi rb hdrs kw =
        with_headers (dict_set hdrs CONTENT_TYPE_PARAM (PStr ct)) (parameter_serialize bi p kw)) \<and>
   (\<not> dict_has kw CONTENT_TYPE_PYTHON_PARAM \<and> \<not> dict_has hdrs CONTENT_TYPE_PARAM \<and>
    (length (rb_content rb) \<noteq> 1 \<or> fst (hd (rb_content rb)) = []) \<longrightarrow>
      body_serialize bi rb hdrs kw = Inl content_type_required)"
  by (auto simp add: body_serialize_def dict_pop_def default_content_type_def)

theorem content_type_selection_witness:
  "body_serialize sample_builtins two_types [(''Content-Type'', PStr ''application/json'')]
     [(''content_type'', PStr ''text/plain''), (''data'', PStr ''hello'')] =
     Inr ([(''Content-Type'', PStr ''text/plain'')], [(''data'', PStr ''hello'')]) \<and>
   body_serialize sample_builtins two_types [(''Content-Type'', PStr ''text/plain'')]
     [(''data'', PStr ''hello'')] =
     Inr ([(''Content-Type'', PStr ''text/plain'')], [(''data'', PStr ''hello'')]) \<and>
   body_serialize sample_builtins one_type [] [(''data'', PStr ''hello'')] =
     Inr ([(''Content-Type'', PStr ''text/plain'')], [(''data'', PStr ''hello'')]) \<and>
   body_serialize sample_builtins two_types [] [(''data'', PStr ''hello'')] =
     Inl (AlmdrlibValueError ([CHR 0x27] @ ''content_type'' @ [CHR 0x27] @ ''parameter is required.''))"
proof -
  have p: "parameter_serialize sample_builtins plain_text [(''data'', PStr ''hello'')] =
      Inr [(''data'', PStr ''hello'')]"
    by (simp add: plain_text_def simple_serialize_def dict_pop_def dict_get_def dict_set_def)
  have 1: "body_serialize sample_builtins two_types [(''Content-Type'', PStr ''application/json'')]
     [(''content_type'', PStr ''text/plain''), (''data'', PStr ''hello'')] =
     Inr ([(''Content-Type'', PStr ''text/plain'')], [(''data'', PStr ''hello'')])"
    using content_type_selection [of "[(''content_type'', PStr ''text/plain''), (''data'', PStr ''hello'')]"
        two_types plain_text sample_builtins "[(''Content-Type'', PStr ''application/json'')]"] p
    by (simp add: dict_has_def dict_get_def two_types_def with_headers_def dict_set_def)
  have 2: "body_serialize sample_builtins two_types [(''Content-Type'', PStr ''text/plain'')]
     [(''data'', PStr ''hello'')] =
     Inr ([(''Content-Type'', PStr ''text/plain'')], [(''data'', PStr ''hello'')])"
    using content_type_selection [of "[(''data'', PStr ''hello'')]"
        two_types plain_text sample_builtins "[(''Content-Type'', PStr ''text/plain'')]"] p
    by (simp add: dict_has_def dict_get_def two_types_def with_headers_def dict_set_def)
  have 3: "body_serialize sample_builtins one_type [] [(''data'', PStr ''hello'')] =
     Inr ([(''Content-Type'', PStr ''text/plain'')], [(''data'', PStr ''hello'')])"
    using content_type_selection [of "[(''data'', PStr ''hello'')]"
        one_type plain_text sample_builtins "[]" "''text/plain''"] p
    by (simp add: dict_has_def dict_get_def one_type_def with_headers_def dict_set_def)
  have 4: "body_serialize sample_builtins two_types [] [(''data'', PStr ''hello'')] =
     Inl (AlmdrlibValueError ([CHR 0x27] @ ''content_type'' @ [CHR 0x27] @ ''parameter is required.''))"
    using content_type_selection [of "[(''data'', PStr ''hello'')]"
        two_types plain_text sample_builtins "[]"]
    by (simp add: dict_has_def two_types_def content_type_required_def)
  from 1 2 3 4 show ?thesis by simp
qed

section \<open>A content type the body does not declare\<close>

lemma content_getitem_undeclared:
  "v \<notin> set (map (\<lambda>(ct, p). PStr ct) c) \<Longrightarrow> content_getitem c v = Inl (lookup_error v)"
proof (cases v)
  case (PStr s)
  assume "v \<notin> set (map (\<lambda>(ct, p). PStr ct) c)"
  with PStr have "s \<notin> fst ` set c" by force
  then have "map_of c s = None" by (simp add: map_of_eq_None_iff)
  with PStr show ?thesis by simp
qed simp_all

text \<open>
  C10. When the \<^verbatim>\<open>content_type\<close> argument, or without it the \<^verbatim>\<open>Content-Type\<close> entry
  of the headers, is not one of the declared content types, \<^verbatim>\<open>RequestBody.serialize\<close>
  fails in the look-up \<^verbatim>\<open>self._content[content_type]\<close>: with \<open>KeyError\<close> for a string
  (and every other value that can be hashed), never with the error
  \<^verbatim>\<open>'content_type'parameter is required.\<close>
\<close>

theorem undeclared_content_type_lookup_error:
  "(dict_has kw CONTENT_TYPE_PYTHON_PARAM \<and>
    dict_get kw CONTENT_TYPE_PYTHON_PARAM PNone \<notin> set (map (\<lambda>(ct, p). PStr ct) (rb_content rb)) \<longrightarrow>
      body_serialize bi rb hdrs kw = Inl (lookup_error (dict_get kw CONTENT_TYPE_PYTHON_PARAM PNone))) \<and>
   (\<not> dict_has kw CONTENT_TYPE_PYTHON_PARAM \<and> dict_has hdrs CONTENT_TYPE_PARAM \<and>
    dict_get hdrs CONTENT_TYPE_PARAM PNone \<notin> set (map (\<lambda>(ct, p). PStr ct) (rb_content rb)) \<longrightarrow>
      body_serialize bi rb hdrs kw = Inl (lookup_error (dict_get hdrs CONTENT_TYPE_PARAM PNone))) \<and>
   lookup_error (PStr s) = KeyError (PStr s) \<and>
   lookup_error v \<noteq> content_type_required"
proof -
  have "lookup_error v \<noteq> content_type_required"
    by (cases v) (simp_all add: content_type_required_def)
  then show ?thesis
    by (simp add: body_serialize_def dict_pop_def content_getitem_undeclared)
qed

theorem undeclared_content_type_lookup_error_witness:
  "body_serialize sample_builtins two_types []
     [(''content_type'', PStr ''text/html''), (''data'', PStr ''hello'')] =
     Inl (KeyError (PStr ''text/html'')) \<and>
   body_serialize sample_builtins two_types [(''Content-Type'', PStr ''text/html'')]
     [(''data'', PStr ''hello'')] = Inl (KeyError (PStr ''text/html''))"
  using undeclared_content_type_lookup_error [of
      "[(''content_type'', PStr ''text/html''), (''data'', PStr ''hello'')]" two_types sample_builtins "[]"]
    undeclared_content_type_lookup_error [of
      "[(''data'', PStr ''hello'')]" two_types sample_builtins "[(''Content-Type'', PStr ''text/html'')]"]
  by (simp add: dict_has_def dict_get_def two_types_def)

section \<open>Object bodies without a property\<close>

lemma collect_empty_iff:
  "fst (collect properties kw) = [] \<longleftrightarrow> list_all (\<lambda>k. \<not> dict_has kw k) properties"
  by (induction properties arbitrary: kw) (simp_all add: split_beta Let_def)

text \<open>
  C7, as the claim states it, fails: for an object parameter of a body that is not
  required, a call that supplies none of the declared properties collects nothing, passes
  validation and leaves the payload \<^verbatim>\<open>{}\<close> under \<^verbatim>\<open>data\<close>.
\<close>

theorem optional_empty_object_body_counterexample:
  "\<not> rbp_required \<lparr> rbp_name = ''data'', rbp_content_type = ''application/json'',
                     rbp_required = False, rbp_validator = accept_all \<rparr> \<and>
   fst (collect [''name'', ''tags''] []) = [] \<and>
   parameter_serialize sample_builtins (json_object False) [] = Inr [(''data'', PStr ''{}'')]"
  by (simp add: json_object_def object_serialize_def validate_def accept_all_def
      sample_builtins_def dict_set_def dict_has_def)

text \<open>
  C7, amended. The test is on a body that is required: for an object parameter of a
  required body, a call that has every property the schema requires and collects none of
  the declared properties raises the error \<^verbatim>\<open>At least one the ... parameters must be
  specified.\<close> and leaves no payload.
\<close>

theorem required_empty_object_body_raises:
  assumes "rbp_required b"
    and "list_all (dict_has kw) required_properties"
    and "fst (collect properties kw) = []"
  shows "parameter_serialize bi (ObjectParameter b explode properties required_properties) kw =
           Inl (AlmdrlibValueError (at_least_one_message bi properties))"
  using assms by (simp add: object_serialize_def split_beta)

theorem required_empty_object_body_raises_witness:
  "parameter_serialize sample_builtins (json_object True) [(''verbose'', PBool True)] =
     Inl (AlmdrlibValueError (at_least_one_message sample_builtins [''name'', ''tags'']))"
  using required_empty_object_body_raises [of
      "\<lparr> rbp_name = ''data'', rbp_content_type = ''application/json'',
         rbp_required = True, rbp_validator = accept_all \<rparr>"
      "[(''verbose'', PBool True)]" "[]" "[''name'', ''tags'']" sample_builtins False]
  by (simp add: json_object_def dict_has_def)

section \<open>The content type parameter of a signature\<close>

text \<open>
  C6, as the claim states it, fails: an operation whose body declares exactly one content
  type, and which declares no parameter, gets the parameter \<^verbatim>\<open>content_type\<close> all the
  same, with that content type as its default.
\<close>

theorem single_content_type_counterexample:
  "op_body (operation_with [] (Some one_type)) = Some one_type \<and>
   length (rb_content one_type) = 1 \<and>
   body_params (operation_with [] (Some one_type)) =
     [\<lparr> sp_name = ''content_type'', sp_default = Some (PStr ''text/plain''), sp_annotation = Some ''str'' \<rparr>,
      \<lparr> sp_name = ''data'', sp_default = None, sp_annotation = None \<rparr>]"
  by (simp add: operation_with_def one_type_def body_params_def content_type_parameter_def
      default_content_type_def)

text \<open>
  C6, amended. The parameter \<^verbatim>\<open>content_type\<close> (annotated \<^verbatim>\<open>str\<close>) is among the body
  parameters of a signature exactly when the operation has a request body and none of its
  declared parameters is named \<^verbatim>\<open>content_type\<close>. It is then the first of them, and its
  default is the only declared content type when there is exactly one (and it is not the
  empty string), no default otherwise.
\<close>

theorem content_type_parameter_injected:
  "((\<exists>d. \<lparr> sp_name = CONTENT_TYPE_PYTHON_PARAM, sp_default = d, sp_annotation = Some ''str'' \<rparr>
          \<in> set (body_params op)) \<longleftrightarrow>
      op_body op \<noteq> None \<and> CONTENT_TYPE_PYTHON_PARAM \<notin> set (map p_name (op_params op))) \<and>
   (op_body op = Some body \<and> CONTENT_TYPE_PYTHON_PARAM \<notin> set (map p_name (op_params op)) \<longrightarrow>
      hd (body_params op) =
        \<lparr> sp_name = CONTENT_TYPE_PYTHON_PARAM,
          sp_default = (if length (rb_content body) = 1 \<and> fst (hd (rb_content body)) \<noteq> []
                        then Some (PStr (fst (hd (rb_content body)))) else None),
          sp_annotation = Some ''str'' \<rparr>)"
  by (cases "op_body op")
    (auto simp add: body_params_def content_type_parameter_def default_content_type_def)

theorem content_type_parameter_injected_witness:
  "(\<exists>d. \<lparr> sp_name = ''content_type'', sp_default = d, sp_annotation = Some ''str'' \<rparr>
        \<in> set (body_params (operation_with [] (Some two_types)))) \<and>
   hd (body_params (operation_with [] (Some two_types))) =
     \<lparr> sp_name = ''content_type'', sp_default = None, sp_annotation = Some ''str'' \<rparr> \<and>
   \<not> (\<exists>d. \<lparr> sp_name = ''content_type'', sp_default = d, sp_annotation = Some ''str'' \<rparr>
        \<in> set (body_params (operation_with [param_in HEADER ''content-type'' None] (Some two_types))))"
  using content_type_parameter_injected [of "operation_with [] (Some two_types)" two_types]
    content_type_parameter_injected [of
      "operation_with [param_in HEADER ''content-type'' None] (Some two_types)" two_types]
  by (simp add: operation_with_def two_types_def param_in_def PathParameter_def Let_def
      replace_dash_def)

section \<open>Exceptions of a call\<close>

text \<open>
  C8. \<^verbatim>\<open>Operation.__call__\<close> annotates \<open>AlmdrlibValueError\<close> only. A missing required
  parameter raises Python's \<open>ValueError\<close>, and a content type that is not declared raises
  \<open>KeyError\<close>: both reach the caller as they are, without the identity of the operation.
  The negotiation error of the body, an \<open>AlmdrlibValueError\<close>, is annotated.
\<close>

theorem unwrapped_parameter_errors:
  "call bi no_defaults dispatch (operation_with [param_in QUERY ''limit'' (Some True)] None) srv [] =
     (srv, Inl (ValueError ([CHR 0x27] @ ''limit'' @ [CHR 0x27] @ '' is required''))) \<and>
   call bi no_defaults dispatch (operation_with [] (Some two_types)) srv
       [(''content_type'', PStr ''text/html'')] =
     (srv, Inl (KeyError (PStr ''text/html''))) \<and>
   call bi no_defaults dispatch (operation_with [] (Some two_types)) srv [] =
     (srv, Inl (AlmdrlibValueError (''<things.create_thing: POST /things> failed '' @
        [CHR 0x27] @ ''content_type'' @ [CHR 0x27] @ ''parameter is required.'')))"
  by (simp add: call_def gen_call_def operation_with_def param_in_def PathParameter_def Let_def
      replace_dash_def serialize_def default_def no_defaults_def dict_has_def dict_get_def
      body_serialize_def two_types_def default_content_type_def content_type_required_def
      dict_pop_def repr_def upper_def char_upper_def)

section \<open>Operation ids at load time\<close>

lemma methods_loop_log_irrelevant:
  "snd (methods_loop build c path ms (log1, ops)) = snd (methods_loop build c path ms (log2, ops))"
proof (induction ms arbitrary: log1 log2 ops)
  case Nil
  show ?case by simp
next
  case (Cons a ms)
  obtain m s where a: "a = (m, s)" by (cases a)
  show ?case
    unfolding a using Cons.IH
    by (auto split: option.splits sum.splits)
qed

lemma methods_loop_append:
  "methods_loop build c path (ms1 @ ms2) (log, ops) =
     (case methods_loop build c path ms1 (log, ops) of
        (log1, Inl e) \<Rightarrow> (log1, Inl e)
      | (log1, Inr ops1) \<Rightarrow> methods_loop build c path ms2 (log1, ops1))"
proof (induction ms1 arbitrary: log ops)
  case Nil
  show ?case by simp
next
  case (Cons a ms1)
  obtain m s where a: "a = (m, s)" by (cases a)
  show ?case
    unfolding a using Cons.IH
    by (auto split: option.splits sum.splits)
qed

lemma methods_loop_skip:
  assumes "lacks_id s"
  shows "methods_loop build c path ((m, s) # ms) (log, ops) =
           methods_loop build c path ms (log @ [missing_id_warning m path], ops)"
  using assms by (auto simp add: lacks_id_def)

lemma methods_loop_log_grows:
  "set log \<subseteq> set (fst (methods_loop build c path ms (log, ops)))"
proof (induction ms arbitrary: log ops)
  case Nil
  show ?case by simp
next
  case (Cons a ms)
  obtain m s where a: "a = (m, s)" by (cases a)
  have "set (log @ [missing_id_warning m path]) \<subseteq>
      set (fst (methods_loop build c path ms (log @ [missing_id_warning m path], ops)))"
    by (rule Cons.IH)
  then show ?case
    unfolding a using Cons.IH
    by (auto split: option.splits sum.splits)
qed

lemma paths_loop_log_grows:
  "set log \<subseteq> set (fst (paths_loop build c ps (log, ops)))"
proof (induction ps arbitrary: log ops)
  case Nil
  show ?case by simp
next
  case (Cons a ps)
  obtain path ms where a: "a = (path, ms)" by (cases a)
  obtain log1 r where r: "methods_loop build c path ms (log, ops) = (log1, r)"
    by (cases "methods_loop build c path ms (log, ops)")
  have g: "set log \<subseteq> set log1"
    using methods_loop_log_grows [of log build c path ms ops] r by simp
  show ?case
  proof (cases r)
    case (Inl e)
    with r g show ?thesis unfolding a by simp
  next
    case (Inr ops1)
    have "set log1 \<subseteq> set (fst (paths_loop build c ps (log1, ops1)))"
      by (rule Cons.IH)
    with r g Inr show ?thesis unfolding a by auto
  qed
qed

lemma paths_loop_log_irrelevant:
  "snd (paths_loop build c ps (log1, ops)) = snd (paths_loop build c ps (log2, ops))"
proof (induction ps arbitrary: log1 log2 ops)
  case Nil
  show ?case by simp
next
  case (Cons a ps)
  obtain path ms where a: "a = (path, ms)" by (cases a)
  obtain l1 r1 where r1: "methods_loop build c path ms (log1, ops) = (l1, r1)"
    by (cases "methods_loop build c path ms (log1, ops)")
  obtain l2 r2 where r2: "methods_loop build c path ms (log2, ops) = (l2, r2)"
    by (cases "methods_loop build c path ms (log2, ops)")
  have "r1 = r2"
    using methods_loop_log_irrelevant [of build c path ms log1 ops log2] r1 r2 by simp
  then show ?case
    unfolding a using Cons.IH r1 r2
    by (cases r1) auto
qed

lemma paths_loop_append:
  "paths_loop build c (ps1 @ ps2) (log, ops) =
     (case paths_loop build c ps1 (log, ops) of
        (log1, Inl e) \<Rightarrow> (log1, Inl e)
      | (log1, Inr ops1) \<Rightarrow> paths_loop build c ps2 (log1, ops1))"
proof (induction ps1 arbitrary: log ops)
  case Nil
  show ?case by simp
next
  case (Cons a ps1)
  obtain path ms where a: "a = (path, ms)" by (cases a)
  show ?case
    unfolding a using Cons.IH
    by (auto split: prod.splits sum.splits)
qed

lemma methods_loop_ids:
  assumes "snd (methods_loop build c path ms (log, ops)) = Inr ops'"
    and "distinct (map fst ops)"
  shows "map fst ops' = map fst ops @ method_ids ms \<and> distinct (map fst ops @ method_ids ms)"
  using assms
proof (induction ms arbitrary: log ops)
  case Nil
  then show ?case by simp
next
  case (Cons a ms)
  obtain m s where a: "a = (m, s)" by (cases a)
  show ?case
  proof (cases "lacks_id s")
    case True
    with Cons.prems(1) have
      "snd (methods_loop build c path ms (log @ [missing_id_warning m path], ops)) = Inr ops'"
      unfolding a by (auto simp add: lacks_id_def)
    then have "map fst ops' = map fst ops @ method_ids ms \<and>
        distinct (map fst ops @ method_ids ms)"
      using Cons.prems(2) by (rule Cons.IH)
    moreover from True have "method_ids ((m, s) # ms) = method_ids ms"
      by (auto simp add: lacks_id_def)
    ultimately show ?thesis
      unfolding a by (simp only:)
  next
    case False
    then obtain i where i: "os_operation_id s = Some i" "i \<noteq> []"
      by (auto simp add: lacks_id_def)
    from Cons.prems i have nd: "\<not> dict_has ops i"
      unfolding a by (auto split: if_splits)
    from Cons.prems i nd obtain operation where
      b: "build path m (os_rest s) = Inr operation"
      unfolding a by (auto split: sum.splits)
    from Cons.prems i nd b have
      "snd (methods_loop build c path ms (log, ops @ [(i, operation)])) = Inr ops'"
      unfolding a by simp
    moreover have "distinct (map fst (ops @ [(i, operation)]))"
      using Cons.prems(2) nd by (simp add: dict_has_def)
    ultimately have "map fst ops' = map fst (ops @ [(i, operation)]) @ method_ids ms \<and>
        distinct (map fst (ops @ [(i, operation)]) @ method_ids ms)"
      by (rule Cons.IH)
    then show ?thesis
      unfolding a using i by simp
  qed
qed

lemma paths_loop_ids:
  assumes "snd (paths_loop build c ps (log, ops)) = Inr ops'"
    and "distinct (map fst ops)"
  shows "map fst ops' = map fst ops @ operation_ids ps \<and>
         distinct (map fst ops @ operation_ids ps)"
  using assms
proof (induction ps arbitrary: log ops)
  case Nil
  then show ?case by simp
next
  case (Cons a ps)
  obtain path ms where a: "a = (path, ms)" by (cases a)
  obtain log1 r where r: "methods_loop build c path ms (log, ops) = (log1, r)"
    by (cases "methods_loop build c path ms (log, ops)")
  from Cons.prems(1) r obtain ops1 where ops1: "r = Inr ops1"
    unfolding a by (cases r) auto
  have m: "map fst ops1 = map fst ops @ method_ids ms \<and>
      distinct (map fst ops @ method_ids ms)"
    using methods_loop_ids [of build c path ms log ops ops1] r ops1 Cons.prems(2) by simp
  from Cons.prems(1) r ops1 have "snd (paths_loop build c ps (log1, ops1)) = Inr ops'"
    unfolding a by simp
  moreover from m have "distinct (map fst ops1)" by simp
  ultimately have "map fst ops' = map fst ops1 @ operation_ids ps \<and>
      distinct (map fst ops1 @ operation_ids ps)"
    by (rule Cons.IH)
  with m show ?case
    unfolding a by simp
qed

lemma methods_loop_error:
  assumes "snd (methods_loop build c path ms (log, ops)) = Inl e"
    and "\<And>p m r. build p m r \<noteq> Inl e"
  shows "\<exists>i. i \<in> set (method_ids ms) \<and> e = duplication_error i c"
  using assms(1)
proof (induction ms arbitrary: log ops)
  case Nil
  then show ?case by simp
next
  case (Cons a ms)
  obtain m s where a: "a = (m, s)" by (cases a)
  show ?case
    using Cons.prems Cons.IH assms(2) unfolding a
    by (fastforce split: option.splits if_splits sum.splits)
qed

lemma paths_loop_error:
  assumes "snd (paths_loop build c ps (log, ops)) = Inl e"
    and "\<And>p m r. build p m r \<noteq> Inl e"
  shows "\<exists>i. i \<in> set (operation_ids ps) \<and> e = duplication_error i c"
  using assms(1)
proof (induction ps arbitrary: log ops)
  case Nil
  then show ?case by simp
next
  case (Cons a ps)
  obtain path ms where a: "a = (path, ms)" by (cases a)
  obtain log1 r where r: "methods_loop build c path ms (log, ops) = (log1, r)"
    by (cases "methods_loop build c path ms (log, ops)")
  show ?case
  proof (cases r)
    case (Inl e')
    with Cons.prems r have "snd (methods_loop build c path ms (log, ops)) = Inl e"
      unfolding a by simp
    from methods_loop_error [OF this assms(2)] show ?thesis
      unfolding a by auto
  next
    case (Inr ops1)
    with Cons.prems r have "snd (paths_loop build c ps (log1, ops1)) = Inl e"
      unfolding a by simp
    from Cons.IH [OF this] show ?thesis
      unfolding a by auto
  qed
qed

text \<open>
  C9. \<^verbatim>\<open>Client._initialize_operations\<close>, which \<^verbatim>\<open>load_spec\<close> runs while the client is
  constructed. A method whose sub-document lacks an operation id does not change the
  outcome of the load (it is the outcome of the document without that method), and when
  the load succeeds its warning is in the log. A load that succeeds gives the operations
  under exactly the ids of the document, in their order, and those ids are distinct. So a
  document that uses an id twice never loads: the load raises, and when the construction
  of the operations itself never raises, what it raises is the \<^verbatim>\<open>Duplication\<close> error of
  one of the ids.
\<close>

theorem operations_of_a_loaded_client:
  "(lacks_id s \<longrightarrow>
      snd (initialize_operations build c (ps1 @ (path, ms1 @ (m, s) # ms2) # ps2)) =
      snd (initialize_operations build c (ps1 @ (path, ms1 @ ms2) # ps2))) \<and>
   (lacks_id s \<and>
    snd (initialize_operations build c (ps1 @ (path, ms1 @ (m, s) # ms2) # ps2)) = Inr ops \<longrightarrow>
      missing_id_warning m path \<in>
        set (fst (initialize_operations build c (ps1 @ (path, ms1 @ (m, s) # ms2) # ps2)))) \<and>
   (snd (initialize_operations build c paths) = Inr ops \<longrightarrow>
      map fst ops = operation_ids paths \<and> distinct (operation_ids paths)) \<and>
   (\<not> distinct (operation_ids paths) \<longrightarrow>
      (\<exists>e. snd (initialize_operations build c paths) = Inl e)) \<and>
   (\<not> distinct (operation_ids paths) \<and> (\<forall>p m r. \<not> isl (build p m r)) \<longrightarrow>
      (\<exists>i. i \<in> set (operation_ids paths) \<and>
           snd (initialize_operations build c paths) = Inl (duplication_error i c)))"
proof -
  let ?with = "ps1 @ (path, ms1 @ (m, s) # ms2) # ps2"
  let ?without = "ps1 @ (path, ms1 @ ms2) # ps2"
  have ids: "map fst ops' = operation_ids ps \<and> distinct (operation_ids ps)"
    if "snd (initialize_operations build c ps) = Inr ops'" for ps and ops' :: "(string \<times> 'b) list"
    using paths_loop_ids [of build c ps "[]" "[]" ops'] that
    by (simp add: initialize_operations_def)
  have dup: "\<exists>e. snd (initialize_operations build c paths) = Inl e"
    if "\<not> distinct (operation_ids paths)"
  proof (cases "snd (initialize_operations build c paths)")
    case (Inl e)
    then show ?thesis by blast
  next
    case (Inr ops')
    from ids [OF this] that show ?thesis by simp
  qed
  have dup_error: "\<exists>i. i \<in> set (operation_ids paths) \<and>
      snd (initialize_operations build c paths) = Inl (duplication_error i c)"
    if "\<not> distinct (operation_ids paths)" and "\<forall>p m r. \<not> isl (build p m r)"
  proof -
    from dup [OF that(1)] obtain e where e: "snd (initialize_operations build c paths) = Inl e"
      by blast
    have "build p m r \<noteq> Inl e" for p m r
      using that(2) by (metis sum.disc(1))
    with e paths_loop_error [of build c paths "[]" "[]" e] show ?thesis
      by (auto simp add: initialize_operations_def)
  qed
  have skip: "methods_loop build c path (ms1 @ (m, s) # ms2) (l, operations) =
      (case methods_loop build c path ms1 (l, operations) of
         (l1, Inl e) \<Rightarrow> (l1, Inl e)
       | (l1, Inr o1) \<Rightarrow> methods_loop build c path ms2 (l1 @ [missing_id_warning m path], o1))"
    if "lacks_id s" for l operations
    using methods_loop_skip [OF that, of build c path m ms2]
    by (simp add: methods_loop_append split: prod.splits sum.splits)
  have same: "snd (paths_loop build c ((path, ms1 @ (m, s) # ms2) # ps2) (l, operations)) =
      snd (paths_loop build c ((path, ms1 @ ms2) # ps2) (l, operations))"
    if lacks: "lacks_id s" for l operations
  proof -
    obtain l1 r1 where r1: "methods_loop build c path ms1 (l, operations) = (l1, r1)"
      by (cases "methods_loop build c path ms1 (l, operations)")
    have wo: "methods_loop build c path (ms1 @ ms2) (l, operations) =
        (case methods_loop build c path ms1 (l, operations) of
           (l1, Inl e) \<Rightarrow> (l1, Inl e)
         | (l1, Inr o1) \<Rightarrow> methods_loop build c path ms2 (l1, o1))"
      by (rule methods_loop_append)
    show ?thesis
    proof (cases r1)
      case (Inl e)
      with r1 show ?thesis
        by (simp add: skip [OF lacks] wo)
    next
      case (Inr o1)
      obtain l2 r2 where r2: "methods_loop build c path ms2 (l1, o1) = (l2, r2)"
        by (cases "methods_loop build c path ms2 (l1, o1)")
      obtain l3 r3 where
        r3: "methods_loop build c path ms2 (l1 @ [missing_id_warning m path], o1) = (l3, r3)"
        by (cases "methods_loop build c path ms2 (l1 @ [missing_id_warning m path], o1)")
      have eq: "r3 = r2"
        using methods_loop_log_irrelevant [of build c path ms2 "l1 @ [missing_id_warning m path]" o1 l1]
          r2 r3 by simp
      show ?thesis
      proof (cases r2)
        case (Inl e)
        with r1 Inr r2 r3 eq show ?thesis
          by (simp add: skip [OF lacks] wo)
      next
        case o2: (Inr o2)
        have "snd (paths_loop build c ps2 (l3, o2)) = snd (paths_loop build c ps2 (l2, o2))"
          by (rule paths_loop_log_irrelevant)
        with r1 Inr r2 r3 eq o2 show ?thesis
          by (simp add: skip [OF lacks] wo)
      qed
    qed
  qed
  have unchanged: "snd (initialize_operations build c ?with) =
      snd (initialize_operations build c ?without)" if lacks: "lacks_id s"
  proof -
    obtain l1 r1 where r1: "paths_loop build c ps1 ([], []) = (l1, r1)"
      by (cases "paths_loop build c ps1 ([], [])")
    show ?thesis
      using r1 same [OF lacks]
      by (cases r1) (simp_all add: initialize_operations_def paths_loop_append)
  qed
  have logged: "missing_id_warning m path \<in> set (fst (initialize_operations build c ?with))"
    if lacks: "lacks_id s" and ok: "snd (initialize_operations build c ?with) = Inr ops"
  proof -
    obtain l1 r1 where r1: "paths_loop build c ps1 ([], []) = (l1, r1)"
      by (cases "paths_loop build c ps1 ([], [])")
    from ok r1 obtain o1 where o1: "r1 = Inr o1"
      by (cases r1) (auto simp add: initialize_operations_def paths_loop_append)
    obtain l2 r2 where r2: "methods_loop build c path ms1 (l1, o1) = (l2, r2)"
      by (cases "methods_loop build c path ms1 (l1, o1)")
    from ok r1 o1 r2 obtain o2 where o2: "r2 = Inr o2"
      by (cases r2) (auto simp add: initialize_operations_def paths_loop_append skip [OF lacks])
    obtain l3 r3 where
      r3: "methods_loop build c path ms2 (l2 @ [missing_id_warning m path], o2) = (l3, r3)"
      by (cases "methods_loop build c path ms2 (l2 @ [missing_id_warning m path], o2)")
    from ok r1 o1 r2 o2 r3 obtain o3 where o3: "r3 = Inr o3"
      by (cases r3) (auto simp add: initialize_operations_def paths_loop_append skip [OF lacks])
    have "missing_id_warning m path \<in> set l3"
      using methods_loop_log_grows [of "l2 @ [missing_id_warning m path]" build c path ms2 o2] r3
      by auto
    moreover have "set l3 \<subseteq> set (fst (paths_loop build c ps2 (l3, o3)))"
      by (rule paths_loop_log_grows)
    moreover have "initialize_operations build c ?with = paths_loop build c ps2 (l3, o3)"
      using r1 o1 r2 o2 r3 o3
      by (simp add: initialize_operations_def paths_loop_append skip [OF lacks])
    ultimately show ?thesis by auto
  qed
  show ?thesis
    using unchanged logged ids [of paths ops] dup dup_error by blast
qed

theorem operations_of_a_loaded_client_witness:
  "lacks_id without_id \<and>
   snd (initialize_operations build_pair ''things'' missing_id_document) =
     snd (initialize_operations build_pair ''things'' complete_document) \<and>
   snd (initialize_operations build_pair ''things'' missing_id_document) =
     Inr [(''list_things'', (''get'', ''/things''))] \<and>
   missing_id_warning ''post'' ''/things'' \<in>
     set (fst (initialize_operations build_pair ''things'' missing_id_document)) \<and>
   \<not> distinct (operation_ids duplicate_document) \<and>
   (\<exists>e. snd (initialize_operations build_pair ''things'' duplicate_document) = Inl e)"
proof -
  have l: "lacks_id without_id"
    by (simp add: lacks_id_def without_id_def)
  have ok: "snd (initialize_operations build_pair ''things''
        ([] @ (''/things'', [(''get'', with_id ''list_things'')] @ (''post'', without_id) # []) # [])) =
      Inr [(''list_things'', (''get'', ''/things''))]"
    by (simp add: initialize_operations_def with_id_def without_id_def build_pair_def dict_has_def)
  have nd: "\<not> distinct (operation_ids duplicate_document)"
    by (simp add: duplicate_document_def with_id_def)
  note t = operations_of_a_loaded_client [where s = without_id and build = build_pair
      and c = "''things''" and ?ps1.0 = "[]" and path = "''/things''"
      and ?ms1.0 = "[(''get'', with_id ''list_things'')]" and m = "''post''" and ?ms2.0 = "[]"
      and ?ps2.0 = "[]" and ops = "[(''list_things'', (''get'', ''/things''))]"
      and paths = duplicate_document]
  from t l ok nd show ?thesis
    by (simp add: missing_id_document_def complete_document_def)
qed

end
